theory Spec2Isabelle
  imports Complex_Main "HOL-Library.AList" "HOL-Library.Word"
begin

unbundle bit_operations_syntax

section \<open>Python values\<close>

text \<open>
  The handlers of \<^verbatim>\<open>main.py\<close> work on Python dictionaries whose values are
  JSON-like. A dictionary is an association list in insertion order: \<open>d[k] = v\<close>
  replaces the value of an existing key in place and appends a new key at the end,
  which is \<open>AList.update\<close>; \<open>del d[k]\<close> is \<open>AList.delete\<close>; \<open>k in d\<close> and
  \<open>d[k]\<close> are \<open>map_of\<close>.

  A Python float is one of the finite values (over-approximated by the rationals),
  the two infinities or NaN.

  A string is the sequence of the bytes of its UTF-8 encoding, which is what the
  file system is given as a file name. Splitting at the dot and looking for a
  \<open>/\<close> or a NUL character give the same on the bytes as on the characters.
\<close>

datatype pyfloat = Finite rat | PosInf | NegInf | NaN

datatype pyval =
    PyNone
  | PyBool bool
  | PyInt int
  | PyFloat pyfloat
  | PyStr string
  | PyList "pyval list"
  | PyDict "(string \<times> pyval) list"
  | PyMethod string

type_synonym pydict = "(string \<times> pyval) list"

text \<open>
  The exceptions, by their Python class. \<open>OSError\<close> is the class itself (the
  operating system's "file name too long"); its subclasses \<open>FileNotFoundError\<close>,
  \<open>NotADirectoryError\<close> and \<open>IsADirectoryError\<close> have values of their own.
\<close>

datatype error =
    HTTPException nat string
  | RequestValidationError
  | AttributeError
  | TypeError
  | ValueError
  | FileNotFoundError
  | NotADirectoryError
  | IsADirectoryError
  | OSError
  | RuntimeError

text \<open>\<open>d[k] = v\<close> on a dictionary.\<close>

definition setitem :: "('k \<times> 'v) list \<Rightarrow> 'k \<Rightarrow> 'v \<Rightarrow> ('k \<times> 'v) list" where
  "setitem d k v = AList.update k v d"

text \<open>
  \<open>for key, value in e.items(): d[key] = value\<close>, which is also what the
  unpacking \<open>{..., **e}\<close> does to the dictionary built so far.
\<close>

fun dict_merge :: "pydict \<Rightarrow> pydict \<Rightarrow> pydict" where
  "dict_merge d [] = d"
| "dict_merge d ((key, val) # rest) = dict_merge (setitem d key val) rest"

section \<open>The item model\<close>

text \<open>\<open>class Item(BaseModel)\<close>: name and price are required.\<close>

record Item =
  name :: string
  description :: "string option"
  price :: pyfloat
  tax :: "pyfloat option"

text \<open>\<open>item.model_dump()\<close>: all four fields in declaration order, None for an
  optional field that is not set.\<close>

definition model_dump :: "Item \<Rightarrow> pydict" where
  "model_dump item =
     [(''name'', PyStr (name item)),
      (''description'', (case description item of None \<Rightarrow> PyNone | Some d \<Rightarrow> PyStr d)),
      (''price'', PyFloat (price item)),
      (''tax'', (case tax item of None \<Rightarrow> PyNone | Some t \<Rightarrow> PyFloat t))]"

section \<open>Identifiers\<close>

text \<open>
  \<open>uuid.uuid4()\<close> draws 128 random bits and sets the version and variant bits;
  \<open>str\<close> prints the 32 hexadecimal digits in groups of 8-4-4-4-12. The random bits
  are an argument of every handler that draws an identifier.
\<close>

definition hex_digit :: "nat \<Rightarrow> char" where
  "hex_digit n = ''0123456789abcdef'' ! (n mod 16)"

definition hex32 :: "128 word \<Rightarrow> string" where
  "hex32 w = map (\<lambda>i. hex_digit (unat (drop_bit (4 * (31 - i)) w AND 15))) [0..<32]"

definition uuid4 :: "128 word \<Rightarrow> 128 word" where
  "uuid4 r = (((r AND NOT (push_bit 48 0xc000)) OR push_bit 48 0x8000)
                AND NOT (push_bit 64 0xf000)) OR push_bit 76 4"

definition str_uuid :: "128 word \<Rightarrow> string" where
  "str_uuid u = (let h = hex32 u in
     take 8 h @ ''-'' @ take 4 (drop 8 h) @ ''-'' @ take 4 (drop 12 h) @ ''-'' @
     take 4 (drop 16 h) @ ''-'' @ drop 20 h)"

section \<open>The item registry\<close>

text \<open>
  \<open>items_db\<close> is a module-level dictionary from identifier to the item's dictionary.
  Every handler takes the registry and returns its outcome (\<open>Inl\<close> for a raised
  exception) together with the registry it leaves behind. \<open>item_id not in items_db\<close>
  followed by \<open>items_db[item_id]\<close> is one lookup: \<open>None\<close> is the absent key.
\<close>

type_synonym items_db = "(string \<times> pydict) list"

definition not_found :: error where
  "not_found = HTTPException 404 ''Item not found''"

definition read_root :: pyval where
  "read_root = PyDict [(''Hello'', PyStr ''World'')]"

definition read_items :: "items_db \<Rightarrow> (error + pyval) \<times> items_db" where
  "read_items db = (Inr (PyList (map (\<lambda>(k, item). PyDict item) db)), db)"

definition read_item :: "string \<Rightarrow> items_db \<Rightarrow> (error + pyval) \<times> items_db" where
  "read_item item_id db =
     (case map_of db item_id of
        None \<Rightarrow> (Inl not_found, db)
      | Some item \<Rightarrow> (Inr (PyDict item), db))"

definition create_item :: "Item \<Rightarrow> 128 word \<Rightarrow> items_db \<Rightarrow> (error + pyval) \<times> items_db" where
  "create_item item rnd db =
     (let item_id = str_uuid (uuid4 rnd) in
      (Inr (PyDict (dict_merge [(''id'', PyStr item_id)] (model_dump item))),
       setitem db item_id (dict_merge [(''id'', PyStr item_id)] (model_dump item))))"

definition update_item :: "string \<Rightarrow> Item \<Rightarrow> items_db \<Rightarrow> (error + pyval) \<times> items_db" where
  "update_item item_id item db =
     (case map_of db item_id of
        None \<Rightarrow> (Inl not_found, db)
      | Some _ \<Rightarrow>
          (let updated_item = dict_merge [(''id'', PyStr item_id)] (model_dump item) in
           (Inr (PyDict updated_item), setitem db item_id updated_item)))"

text \<open>
  \<open>patch_item\<close> mutates the stored dictionary in place, so the registry holds the
  merged dictionary afterwards.
\<close>

definition patch_item :: "string \<Rightarrow> pydict \<Rightarrow> items_db \<Rightarrow> (error + pyval) \<times> items_db" where
  "patch_item item_id item db =
     (case map_of db item_id of
        None \<Rightarrow> (Inl not_found, db)
      | Some existing_item \<Rightarrow>
          (let merged = dict_merge existing_item item in
           (Inr (PyDict merged), setitem db item_id merged)))"

definition delete_item :: "string \<Rightarrow> items_db \<Rightarrow> (error + pyval) \<times> items_db" where
  "delete_item item_id db =
     (case map_of db item_id of
        None \<Rightarrow> (Inl not_found, db)
      | Some _ \<Rightarrow>
          (Inr (PyDict [(''message'', PyStr ''Item deleted successfully'')]),
           AList.delete item_id db))"

section \<open>Search\<close>

text \<open>
  The registry stores dictionaries, and \<open>search_items\<close> reads \<open>item.name\<close> and
  \<open>item.price\<close>: attribute access on a \<open>dict\<close>, which finds the methods of the
  class (the special attributes \<open>__x__\<close> are left out: the source reads none) and
  raises AttributeError for every other name. The keys of a dictionary are not
  attributes.
\<close>

definition bind :: "error + 'a \<Rightarrow> ('a \<Rightarrow> error + 'b) \<Rightarrow> error + 'b" where
  "bind r f = (case r of Inl e \<Rightarrow> Inl e | Inr x \<Rightarrow> f x)"

definition dict_attributes :: "string list" where
  "dict_attributes =
     [''clear'', ''copy'', ''fromkeys'', ''get'', ''items'', ''keys'', ''pop'', ''popitem'',
      ''setdefault'', ''update'', ''values'']"

definition getattr_dict :: "pydict \<Rightarrow> string \<Rightarrow> error + pyval" where
  "getattr_dict d attr =
     (if attr \<in> set dict_attributes then Inr (PyMethod attr) else Inl AttributeError)"

definition char_lower :: "char \<Rightarrow> char" where
  "char_lower c =
     (let n = (of_char c :: nat) in if 65 \<le> n \<and> n \<le> 90 then char_of (n + 32) else c)"

definition lower :: "string \<Rightarrow> string" where
  "lower s = map char_lower s"

text \<open>\<open>v.lower()\<close>: a method of strings only.\<close>

definition call_lower :: "pyval \<Rightarrow> error + string" where
  "call_lower v = (case v of PyStr s \<Rightarrow> Inr (lower s) | _ \<Rightarrow> Inl AttributeError)"

text \<open>\<open>a in b\<close> on strings: \<open>a\<close> occurs in \<open>b\<close> as a contiguous substring.\<close>

fun contains :: "string \<Rightarrow> string \<Rightarrow> bool" where
  "contains a [] = (a = [])"
| "contains a (c # cs) = (take (length a) (c # cs) = a \<or> contains a cs)"

fun float_ge :: "pyfloat \<Rightarrow> pyfloat \<Rightarrow> bool" where
  "float_ge NaN _ = False"
| "float_ge _ NaN = False"
| "float_ge PosInf _ = True"
| "float_ge _ NegInf = True"
| "float_ge (Finite a) (Finite b) = (b \<le> a)"
| "float_ge _ _ = False"

text \<open>\<open>v >= m\<close> for a float \<open>m\<close>.\<close>

definition py_ge :: "pyval \<Rightarrow> pyfloat \<Rightarrow> error + bool" where
  "py_ge v m =
     (case v of
        PyFloat x \<Rightarrow> Inr (float_ge x m)
      | PyInt i \<Rightarrow> Inr (float_ge (Finite (of_int i)) m)
      | PyBool b \<Rightarrow> Inr (float_ge (Finite (if b then 1 else 0)) m)
      | _ \<Rightarrow> Inl TypeError)"

text \<open>
  The condition of the comprehension, with the short circuits of \<open>or\<close> and
  \<open>and\<close>: an attribute is read only when its filter is given.
\<close>

definition search_cond :: "string option \<Rightarrow> pyfloat option \<Rightarrow> pydict \<Rightarrow> error + bool" where
  "search_cond name_q min_price item =
     bind (case name_q of
             None \<Rightarrow> Inr True
           | Some n \<Rightarrow>
               bind (getattr_dict item ''name'') (\<lambda>v.
               bind (call_lower v) (\<lambda>s. Inr (contains (lower n) s))))
       (\<lambda>name_ok.
          if \<not> name_ok then Inr False
          else (case min_price of
                  None \<Rightarrow> Inr True
                | Some m \<Rightarrow> bind (getattr_dict item ''price'') (\<lambda>v. py_ge v m)))"

fun filtered_items :: "string option \<Rightarrow> pyfloat option \<Rightarrow> pydict list \<Rightarrow> error + pydict list" where
  "filtered_items name_q min_price [] = Inr []"
| "filtered_items name_q min_price (item # rest) =
     bind (search_cond name_q min_price item) (\<lambda>keep.
     bind (filtered_items name_q min_price rest) (\<lambda>r.
       Inr (if keep then item # r else r)))"

definition search_items ::
  "string option \<Rightarrow> pyfloat option \<Rightarrow> items_db \<Rightarrow> (error + pyval) \<times> items_db" where
  "search_items name_q min_price db =
     (case filtered_items name_q min_price (map snd db) of
        Inl e \<Rightarrow> (Inl e, db)
      | Inr r \<Rightarrow> (Inr (PyList (map PyDict r)), db))"

text \<open>\<open>Query(None, min_length=1, max_length=50)\<close> and \<open>Query(None, ge=0)\<close>.\<close>

definition valid_search_query :: "string option \<Rightarrow> pyfloat option \<Rightarrow> bool" where
  "valid_search_query name_q min_price =
     ((case name_q of None \<Rightarrow> True | Some n \<Rightarrow> 1 \<le> length n \<and> length n \<le> 50)
      \<and> (case min_price of None \<Rightarrow> True | Some m \<Rightarrow> float_ge m (Finite 0)))"

section \<open>The file store\<close>

text \<open>
  The store is the directory \<open>uploads\<close> under the working directory: \<open>None\<close> when
  it does not exist, otherwise its regular files by name (the program creates
  nothing else there). The functions below are the calls of \<open>os\<close>, \<open>open\<close> and
  \<open>FileResponse\<close> on the path \<open>os.path.join("uploads", n)\<close> as Linux answers them,
  for the names the program passes: a stored name (the random token, a dot and the
  extension, so a relative name) to \<open>open\<close>, and one path segment to
  \<open>os.path.exists\<close>. Failures of the device (no space, no permission) are outside
  the model.
\<close>

type_synonym bytes = "8 word list"

type_synonym directory = "(string \<times> bytes) list"

record UploadFile =
  filename :: string
  payload :: bytes

text \<open>
  What a handler returns: a value that the framework sends as JSON, or
  \<open>FileResponse(path, media_type, filename)\<close>. Turning the value into JSON text is
  the framework's work and outside the model.
\<close>

datatype response =
    JSON pyval
  | FileResponse string string string

definition os_makedirs :: "directory option \<Rightarrow> directory option" where
  "os_makedirs fs = (case fs of None \<Rightarrow> Some [] | Some d \<Rightarrow> Some d)"

text \<open>The names that stand for a directory: \<open>uploads/\<close>, \<open>uploads/.\<close> and
  \<open>uploads/..\<close>.\<close>

definition names_directory :: "string \<Rightarrow> bool" where
  "names_directory n = (n = [] \<or> n = ''.'' \<or> n = ''..'')"

text \<open>
  The limits of the file system: a path of \<open>PATH_MAX\<close> bytes or more, and a
  component of more than \<open>NAME_MAX\<close> bytes, are refused as too long.
\<close>

definition NAME_MAX :: nat where
  "NAME_MAX = 255"

definition PATH_MAX :: nat where
  "PATH_MAX = 4096"

text \<open>
  \<open>with open(path, "wb") as buffer: buffer.write(data)\<close> creates or truncates the
  file. It raises, in this order:
  \<^item> ValueError for a NUL character in the name, before the system is asked;
  \<^item> OSError (name too long) for a path of \<open>PATH_MAX\<close> bytes or more;
  \<^item> FileNotFoundError when the directory \<open>uploads\<close> is missing;
  \<^item> for a name with a \<open>/\<close>, whose first component would have to be a
    subdirectory: IsADirectoryError when nothing but slashes follows the first
    component; otherwise OSError when the first component is too long,
    NotADirectoryError when it is a file of the directory, and FileNotFoundError
    when it does not exist;
  \<^item> IsADirectoryError for the empty name, \<open>.\<close> and \<open>..\<close> (no stored name is one
    of them), and OSError for a name of more than \<open>NAME_MAX\<close> bytes.
\<close>

definition open_write :: "directory option \<Rightarrow> string \<Rightarrow> bytes \<Rightarrow> error + directory option" where
  "open_write fs n data =
     (if CHR 0x00 \<in> set n then Inl ValueError
      else if PATH_MAX \<le> length (''uploads/'' @ n) then Inl OSError
      else
        (case fs of
           None \<Rightarrow> Inl FileNotFoundError
         | Some d \<Rightarrow>
             if CHR ''/'' \<in> set n then
               (let first = takeWhile (\<lambda>c. c \<noteq> CHR ''/'') n;
                    rest = dropWhile (\<lambda>c. c \<noteq> CHR ''/'') n
                in if list_all (\<lambda>c. c = CHR ''/'') rest then Inl IsADirectoryError
                   else if NAME_MAX < length first then Inl OSError
                   else if map_of d first \<noteq> None then Inl NotADirectoryError
                   else Inl FileNotFoundError)
             else if names_directory n then Inl IsADirectoryError
             else if NAME_MAX < length n then Inl OSError
             else Inr (Some (setitem d n data))))"

text \<open>
  \<open>os.path.exists\<close> for one path segment: the empty name, \<open>.\<close> and \<open>..\<close> name
  directories, which exist as soon as \<open>uploads\<close> does; any other name exists when
  it is a file of the directory.
\<close>

definition os_path_exists :: "directory option \<Rightarrow> string \<Rightarrow> bool" where
  "os_path_exists fs n =
     (case fs of None \<Rightarrow> False | Some d \<Rightarrow> names_directory n \<or> map_of d n \<noteq> None)"

definition os_listdir :: "directory option \<Rightarrow> error + string list" where
  "os_listdir fs = (case fs of None \<Rightarrow> Inl FileNotFoundError | Some d \<Rightarrow> Inr (map fst d))"

text \<open>
  What the client receives for a \<open>FileResponse\<close> whose path is \<open>uploads/n\<close>: the
  bytes of the regular file; the framework raises RuntimeError when the path is
  missing or is not a regular file, and the request ends with status 500.
\<close>

definition file_response_body :: "directory option \<Rightarrow> string \<Rightarrow> error + bytes" where
  "file_response_body fs n =
     (case fs of
        None \<Rightarrow> Inl RuntimeError
      | Some d \<Rightarrow>
          if names_directory n then Inl RuntimeError
          else (case map_of d n of None \<Rightarrow> Inl RuntimeError | Some data \<Rightarrow> Inr data))"

text \<open>
  \<open>s.split(c)\<close>: the pieces of \<open>s\<close> between the occurrences of \<open>c\<close>. The result
  is never empty (lemmas \<open>py_split_no_sep\<close> and \<open>py_split_sep\<close>), so the first case
  of the inner \<open>case\<close> is never taken and \<open>[-1]\<close> is \<open>last\<close>.
\<close>

fun py_split :: "char \<Rightarrow> string \<Rightarrow> string list" where
  "py_split c [] = [[]]"
| "py_split c (x # xs) =
     (if x = c then [] # py_split c xs
      else (case py_split c xs of [] \<Rightarrow> [[x]] | w # ws \<Rightarrow> (x # w) # ws))"

definition file_ext :: "string \<Rightarrow> string" where
  "file_ext fname = (if CHR ''.'' \<in> set fname then last (py_split CHR ''.'' fname) else [])"

text \<open>The extension as the specification words it: what follows the last dot, or
  nothing when there is no dot.\<close>

definition spec_extension :: "string \<Rightarrow> string" where
  "spec_extension fname =
     (if CHR ''.'' \<in> set fname then rev (takeWhile (\<lambda>c. c \<noteq> CHR ''.'') (rev fname)) else [])"

definition unique_filename :: "128 word \<Rightarrow> string \<Rightarrow> string" where
  "unique_filename rnd fname = str_uuid (uuid4 rnd) @ ''.'' @ file_ext fname"

text \<open>
  The original names whose stored name \<open>open\<close> can create: the extension has no
  \<open>/\<close> and no NUL character, and with the 36 bytes of the token and the dot it
  is no longer than \<open>NAME_MAX\<close>.
\<close>

definition writable_ext :: "string \<Rightarrow> bool" where
  "writable_ext fname =
     (CHR ''/'' \<notin> set (file_ext fname) \<and> CHR 0x00 \<notin> set (file_ext fname)
      \<and> 36 + 1 + length (file_ext fname) \<le> NAME_MAX)"

definition upload_file ::
  "UploadFile \<Rightarrow> 128 word \<Rightarrow> directory option \<Rightarrow> (error + pyval) \<times> directory option" where
  "upload_file file rnd fs =
     (let fs1 = os_makedirs fs;
          stored = unique_filename rnd (filename file)
      in case open_write fs1 stored (payload file) of
           Inl e \<Rightarrow> (Inl e, fs1)
         | Inr fs2 \<Rightarrow>
             (Inr (PyDict [(''filename'', PyStr stored),
                           (''original_filename'', PyStr (filename file)),
                           (''message'', PyStr ''File uploaded successfully'')]),
              fs2))"

definition file_not_found :: error where
  "file_not_found = HTTPException 404 ''File not found''"

definition download_file :: "string \<Rightarrow> directory option \<Rightarrow> error + response" where
  "download_file fname fs =
     (if \<not> os_path_exists fs fname then Inl file_not_found
      else Inr (FileResponse (''uploads/'' @ fname) ''application/octet-stream'' fname))"

definition list_files :: "directory option \<Rightarrow> error + pyval" where
  "list_files fs =
     (case os_listdir fs of
        Inr files \<Rightarrow> Inr (PyDict [(''files'', PyList (map PyStr files))])
      | Inl FileNotFoundError \<Rightarrow> Inr (PyDict [(''files'', PyList [])])
      | Inl e \<Rightarrow> Inl e)"

text \<open>
  The loop of \<open>upload_multiple_files\<close>: \<open>rnd i\<close> is the random draw for the
  \<open>i\<close>-th file. An exception leaves the files written so far in place.
\<close>

fun save_each ::
  "UploadFile list \<Rightarrow> (nat \<Rightarrow> 128 word) \<Rightarrow> nat \<Rightarrow> pyval list \<Rightarrow> directory option
   \<Rightarrow> (error + pyval list) \<times> directory option" where
  "save_each [] rnd i uploaded_files fs = (Inr uploaded_files, fs)"
| "save_each (file # files) rnd i uploaded_files fs =
     (let stored = unique_filename (rnd i) (filename file)
      in case open_write fs stored (payload file) of
           Inl e \<Rightarrow> (Inl e, fs)
         | Inr fs2 \<Rightarrow>
             save_each files rnd (Suc i)
               (uploaded_files @ [PyDict [(''filename'', PyStr stored),
                                          (''original_filename'', PyStr (filename file))]])
               fs2)"

definition upload_multiple_files ::
  "UploadFile list \<Rightarrow> (nat \<Rightarrow> 128 word) \<Rightarrow> directory option
   \<Rightarrow> (error + pyval) \<times> directory option" where
  "upload_multiple_files files rnd fs =
     (case save_each files rnd 0 [] (os_makedirs fs) of
        (Inl e, fs2) \<Rightarrow> (Inl e, fs2)
      | (Inr uploaded_files, fs2) \<Rightarrow>
          (Inr (PyDict [(''uploaded_files'', PyList uploaded_files)]), fs2))"

section \<open>Routing\<close>

text \<open>
  The decorators register the routes in the order of the file, and the router
  serves a request with the first route whose method and path both match. A path
  is its list of segments; a parameter \<open>{x}\<close> matches one non-empty segment.
\<close>

datatype http_method = GET | POST | PUT | PATCH | DELETE

datatype segment = Lit string | Param

datatype endpoint =
    Read_root | Read_items | Read_item | Search_items | Create_item | Update_item
  | Patch_item | Delete_item | Upload_file | Download_file | List_files
  | Upload_multiple_files

definition routes :: "(http_method \<times> segment list \<times> endpoint) list" where
  "routes =
     [(GET, [], Read_root),
      (GET, [Lit ''items''], Read_items),
      (GET, [Lit ''items'', Param], Read_item),
      (GET, [Lit ''items'', Lit ''search''], Search_items),
      (POST, [Lit ''items''], Create_item),
      (PUT, [Lit ''items'', Param], Update_item),
      (PATCH, [Lit ''items'', Param], Patch_item),
      (DELETE, [Lit ''items'', Param], Delete_item),
      (POST, [Lit ''upload''], Upload_file),
      (GET, [Lit ''download'', Param], Download_file),
      (GET, [Lit ''files''], List_files),
      (POST, [Lit ''upload-multiple''], Upload_multiple_files)]"

fun match_path :: "segment list \<Rightarrow> string list \<Rightarrow> string list option" where
  "match_path [] [] = Some []"
| "match_path (Lit s # ps) (x # xs) = (if x = s then match_path ps xs else None)"
| "match_path (Param # ps) (x # xs) =
     (if x = [] then None else map_option ((#) x) (match_path ps xs))"
| "match_path _ _ = None"

fun find_route ::
  "(http_method \<times> segment list \<times> endpoint) list \<Rightarrow> http_method \<Rightarrow> string list
   \<Rightarrow> (endpoint \<times> string list) option" where
  "find_route [] m path = None"
| "find_route ((m', pat, ep) # rs) m path =
     (if m' = m then
        (case match_path pat path of
           Some args \<Rightarrow> Some (ep, args)
         | None \<Rightarrow> find_route rs m path)
      else find_route rs m path)"

text \<open>
  When no route matches method and path, the router answers 405 if the path alone
  matches a route, and 404 otherwise.
\<close>

definition path_known :: "(http_method \<times> segment list \<times> endpoint) list \<Rightarrow> string list \<Rightarrow> bool" where
  "path_known rs path = list_ex (\<lambda>(m, pat, ep). match_path pat path \<noteq> None) rs"

text \<open>
  A GET request: the path, the query parameters \<open>name\<close> and \<open>min_price\<close>, the
  registry and the upload directory. No GET handler writes, so only the outcome is
  returned. The routes found for GET are the six GET handlers; the last case stands
  for the others.
\<close>

definition json_of :: "(error + pyval) \<Rightarrow> error + response" where
  "json_of r = (case r of Inl e \<Rightarrow> Inl e | Inr v \<Rightarrow> Inr (JSON v))"

definition serve_get ::
  "string list \<Rightarrow> string option \<Rightarrow> pyfloat option \<Rightarrow> items_db \<Rightarrow> directory option
   \<Rightarrow> error + response" where
  "serve_get path name_q min_price db fs =
     (case find_route routes GET path of
        None \<Rightarrow>
          if path_known routes path then Inl (HTTPException 405 ''Method Not Allowed'')
          else Inl (HTTPException 404 ''Not Found'')
      | Some (ep, args) \<Rightarrow>
          (case ep of
             Read_root \<Rightarrow> Inr (JSON read_root)
           | Read_items \<Rightarrow> json_of (fst (read_items db))
           | Read_item \<Rightarrow>
               (case args of
                  item_id # _ \<Rightarrow> json_of (fst (read_item item_id db))
                | [] \<Rightarrow> Inl RuntimeError)
           | Search_items \<Rightarrow>
               if valid_search_query name_q min_price
               then json_of (fst (search_items name_q min_price db))
               else Inl RequestValidationError
           | Download_file \<Rightarrow>
               (case args of
                  fname # _ \<Rightarrow> download_file fname fs
                | [] \<Rightarrow> Inl RuntimeError)
           | List_files \<Rightarrow> json_of (list_files fs)
           | _ \<Rightarrow> Inl RuntimeError))"

text \<open>The invariant of the registry: every stored item has a non-empty \<open>id\<close>
  that is the key it is stored under.\<close>

definition id_invariant :: "items_db \<Rightarrow> bool" where
  "id_invariant db =
     list_all (\<lambda>(k, item). k \<noteq> [] \<and> map_of item ''id'' = Some (PyStr k)) db"

section \<open>Dictionaries\<close>

lemma map_of_setitem: "map_of (setitem d k v) = (map_of d)(k \<mapsto> v)"
  by (simp add: setitem_def AList.update_conv')

lemma keys_setitem: "fst ` set (setitem d k v) = insert k (fst ` set d)"
  by (simp add: setitem_def AList.dom_update)

lemma map_of_dict_merge:
  "map_of (dict_merge d e) k = (case map_of (rev e) k of Some v \<Rightarrow> Some v | None \<Rightarrow> map_of d k)"
proof (induction e arbitrary: d)
  case Nil
  then show ?case by simp
next
  case (Cons p e)
  obtain key val where p: "p = (key, val)" by (cases p)
  show ?case
    by (simp add: p Cons.IH map_of_setitem map_add_def split: option.splits)
qed

lemma map_of_dict_merge_absent:
  "k \<notin> fst ` set e \<Longrightarrow> map_of (dict_merge d e) k = map_of d k"
proof -
  assume "k \<notin> fst ` set e"
  then have "map_of (rev e) k = None"
    by (simp add: map_of_eq_None_iff)
  then show ?thesis by (simp add: map_of_dict_merge)
qed

lemma keys_dict_merge: "fst ` set (dict_merge d e) = fst ` set d \<union> fst ` set e"
  by (induction d e rule: dict_merge.induct) (auto simp: keys_setitem)

lemma map_of_rev_absent: "k \<notin> fst ` set e \<Longrightarrow> map_of (rev e) k = None"
  by (simp add: map_of_eq_None_iff)

lemma map_of_rev_present: "k \<in> fst ` set e \<Longrightarrow> map_of (rev e) k \<noteq> None"
  by (simp add: map_of_eq_None_iff)

lemma map_of_dict_merge_if:
  "map_of (dict_merge d e) k = (if k \<in> fst ` set e then map_of (rev e) k else map_of d k)"
proof (cases "k \<in> fst ` set e")
  case True
  then obtain v where "map_of (rev e) k = Some v"
    using map_of_rev_present [of k e] by auto
  with True show ?thesis by (simp add: map_of_dict_merge)
next
  case False
  then show ?thesis by (simp add: map_of_dict_merge map_of_rev_absent)
qed

lemma new_record:
  "dict_merge [(''id'', PyStr k)] (model_dump item) =
     [(''id'', PyStr k),
      (''name'', PyStr (name item)),
      (''description'', (case description item of None \<Rightarrow> PyNone | Some d \<Rightarrow> PyStr d)),
      (''price'', PyFloat (price item)),
      (''tax'', (case tax item of None \<Rightarrow> PyNone | Some t \<Rightarrow> PyFloat t))]"
  by (simp add: model_dump_def setitem_def)

lemma length_str_uuid: "length (str_uuid u) = 36"
  by (simp add: str_uuid_def hex32_def Let_def)

section \<open>Create, then Get\<close>

text \<open>
  C4: Create always succeeds and returns the stored item: the identifier it drew
  and the four input fields. Get on that identifier, in the registry Create leaves
  behind, returns the same record.
\<close>

theorem create_then_get:
  "create_item item rnd db =
     (Inr (PyDict [(''id'', PyStr (str_uuid (uuid4 rnd))),
                   (''name'', PyStr (name item)),
                   (''description'', (case description item of None \<Rightarrow> PyNone | Some d \<Rightarrow> PyStr d)),
                   (''price'', PyFloat (price item)),
                   (''tax'', (case tax item of None \<Rightarrow> PyNone | Some t \<Rightarrow> PyFloat t))]),
      snd (create_item item rnd db))
   \<and> fst (read_item (str_uuid (uuid4 rnd)) (snd (create_item item rnd db))) =
       fst (create_item item rnd db)"
  by (simp add: create_item_def read_item_def new_record map_of_setitem Let_def)

section \<open>Delete\<close>

text \<open>
  C5: Delete fails with NotFound exactly when the id is absent from the registry.
  When the id is present, Delete removes that record and no other and returns the
  acknowledgment message rather than the item; afterwards both Get and a second
  Delete of the same id fail with NotFound.
\<close>

theorem delete_item_spec:
  "(fst (delete_item k db) = Inl not_found \<longleftrightarrow> map_of db k = None)
   \<and> (map_of db k \<noteq> None \<longrightarrow>
        delete_item k db =
          (Inr (PyDict [(''message'', PyStr ''Item deleted successfully'')]), AList.delete k db)
        \<and> map_of (snd (delete_item k db)) = (map_of db)(k := None)
        \<and> fst (read_item k (snd (delete_item k db))) = Inl not_found
        \<and> fst (delete_item k (snd (delete_item k db))) = Inl not_found)"
proof (cases "map_of db k")
  case None
  then show ?thesis by (simp add: delete_item_def)
next
  case (Some item)
  have gone: "map_of (AList.delete k db) k = None"
    by (simp add: AList.delete_conv')
  from Some gone show ?thesis
    by (simp add: delete_item_def read_item_def AList.delete_conv' not_found_def)
qed

theorem delete_item_spec_witness:
  "map_of [(''a'', [(''id'', PyStr ''a'')]), (''b'', [])] ''a'' \<noteq> None
   \<and> delete_item ''a'' [(''a'', [(''id'', PyStr ''a'')]), (''b'', [])] =
       (Inr (PyDict [(''message'', PyStr ''Item deleted successfully'')]), [(''b'', [])])
   \<and> fst (read_item ''a'' (snd (delete_item ''a'' [(''a'', [(''id'', PyStr ''a'')]), (''b'', [])])))
       = Inl not_found
   \<and> fst (delete_item ''a'' (snd (delete_item ''a'' [(''a'', [(''id'', PyStr ''a'')]), (''b'', [])])))
       = Inl not_found"
  using delete_item_spec [of "''a''" "[(''a'', [(''id'', PyStr ''a'')]), (''b'', [])]"]
  by (simp add: delete_item_def read_item_def)

section \<open>NotFound writes nothing\<close>

text \<open>
  C10: whenever Get, Replace, PartialUpdate or Delete fails with NotFound, the
  registry it leaves behind is the registry it was given.
\<close>

theorem not_found_leaves_registry:
  "(fst (read_item k db) = Inl not_found \<longrightarrow> snd (read_item k db) = db)
   \<and> (fst (update_item k item db) = Inl not_found \<longrightarrow> snd (update_item k item db) = db)
   \<and> (fst (patch_item k body db) = Inl not_found \<longrightarrow> snd (patch_item k body db) = db)
   \<and> (fst (delete_item k db) = Inl not_found \<longrightarrow> snd (delete_item k db) = db)"
  by (simp add: read_item_def update_item_def patch_item_def delete_item_def Let_def
      split: option.splits)

theorem not_found_leaves_registry_witness:
  "fst (read_item ''a'' [(''b'', [])]) = Inl not_found
   \<and> snd (read_item ''a'' [(''b'', [])]) = [(''b'', [])]
   \<and> fst (update_item ''a'' \<lparr>name = ''n'', description = None, price = Finite 1, tax = None\<rparr> [(''b'', [])]) = Inl not_found
   \<and> snd (update_item ''a'' \<lparr>name = ''n'', description = None, price = Finite 1, tax = None\<rparr> [(''b'', [])]) = [(''b'', [])]
   \<and> fst (patch_item ''a'' [(''name'', PyStr ''n'')] [(''b'', [])]) = Inl not_found
   \<and> snd (patch_item ''a'' [(''name'', PyStr ''n'')] [(''b'', [])]) = [(''b'', [])]
   \<and> fst (delete_item ''a'' [(''b'', [])]) = Inl not_found
   \<and> snd (delete_item ''a'' [(''b'', [])]) = [(''b'', [])]"
  using not_found_leaves_registry [of "''a''" "[(''b'', [])]"
      "\<lparr>name = ''n'', description = None, price = Finite 1, tax = None\<rparr>"
      "[(''name'', PyStr ''n'')]"]
  by (simp add: read_item_def update_item_def patch_item_def delete_item_def)


section \<open>Replace and PartialUpdate\<close>

text \<open>
  C3: on a registry that holds \<open>old\<close> under \<open>k\<close>, Replace stores and returns the
  identifier and the four fields of the new body and nothing of \<open>old\<close> (an
  optional field the body does not supply is None, a key added by an earlier
  PartialUpdate is gone). PartialUpdate stores and returns \<open>old\<close> with the keys of
  its body overwritten (the last binding of a key in the body) and every other key
  as it was. So when \<open>old\<close> has an optional field set that the Replace body does not
  supply and the PartialUpdate body does not mention, the two results differ at
  that field.
\<close>

theorem replace_versus_partial_update:
  assumes old: "map_of db k = Some old"
  shows "update_item k item db =
           (Inr (PyDict (dict_merge [(''id'', PyStr k)] (model_dump item))),
            setitem db k (dict_merge [(''id'', PyStr k)] (model_dump item)))
     \<and> dict_merge [(''id'', PyStr k)] (model_dump item) =
           [(''id'', PyStr k),
            (''name'', PyStr (name item)),
            (''description'', (case description item of None \<Rightarrow> PyNone | Some d \<Rightarrow> PyStr d)),
            (''price'', PyFloat (price item)),
            (''tax'', (case tax item of None \<Rightarrow> PyNone | Some t \<Rightarrow> PyFloat t))]
     \<and> map_of (snd (update_item k item db)) k =
           Some (dict_merge [(''id'', PyStr k)] (model_dump item))
     \<and> patch_item k body db =
           (Inr (PyDict (dict_merge old body)), setitem db k (dict_merge old body))
     \<and> map_of (snd (patch_item k body db)) k = Some (dict_merge old body)
     \<and> fst ` set (dict_merge old body) = fst ` set old \<union> fst ` set body
     \<and> (\<forall>key. map_of (dict_merge old body) key =
            (if key \<in> fst ` set body then map_of (rev body) key else map_of old key))
     \<and> (\<forall>f v. (f = ''description'' \<and> description item = None \<or> f = ''tax'' \<and> tax item = None)
              \<and> map_of old f = Some v \<and> v \<noteq> PyNone \<and> f \<notin> fst ` set body
            \<longrightarrow> map_of (dict_merge [(''id'', PyStr k)] (model_dump item)) f = Some PyNone
              \<and> map_of (dict_merge old body) f = Some v
              \<and> fst (update_item k item db) \<noteq> fst (patch_item k body db))"
proof -
  have upd: "update_item k item db =
           (Inr (PyDict (dict_merge [(''id'', PyStr k)] (model_dump item))),
            setitem db k (dict_merge [(''id'', PyStr k)] (model_dump item)))"
    using old by (simp add: update_item_def Let_def)
  have pat: "patch_item k body db =
           (Inr (PyDict (dict_merge old body)), setitem db k (dict_merge old body))"
    using old by (simp add: patch_item_def Let_def)
  have differ: "map_of (dict_merge [(''id'', PyStr k)] (model_dump item)) f = Some PyNone
              \<and> map_of (dict_merge old body) f = Some v
              \<and> fst (update_item k item db) \<noteq> fst (patch_item k body db)"
    if f: "f = ''description'' \<and> description item = None \<or> f = ''tax'' \<and> tax item = None"
      and v: "map_of old f = Some v" "v \<noteq> PyNone" and b: "f \<notin> fst ` set body"
    for f v
  proof -
    have r: "map_of (dict_merge [(''id'', PyStr k)] (model_dump item)) f = Some PyNone"
      using f by (auto simp: new_record)
    have m: "map_of (dict_merge old body) f = Some v"
      using v b by (simp add: map_of_dict_merge_if)
    from r m v have "dict_merge [(''id'', PyStr k)] (model_dump item) \<noteq> dict_merge old body"
      by auto
    with r m show ?thesis by (simp add: upd pat)
  qed
  have rec: "dict_merge [(''id'', PyStr k)] (model_dump item) =
           [(''id'', PyStr k),
            (''name'', PyStr (name item)),
            (''description'', (case description item of None \<Rightarrow> PyNone | Some d \<Rightarrow> PyStr d)),
            (''price'', PyFloat (price item)),
            (''tax'', (case tax item of None \<Rightarrow> PyNone | Some t \<Rightarrow> PyFloat t))]"
    by (rule new_record)
  have stored_upd: "map_of (snd (update_item k item db)) k =
           Some (dict_merge [(''id'', PyStr k)] (model_dump item))"
    by (simp only: upd snd_conv map_of_setitem fun_upd_same)
  have stored_pat: "map_of (snd (patch_item k body db)) k = Some (dict_merge old body)"
    by (simp only: pat snd_conv map_of_setitem fun_upd_same)
  have keys: "fst ` set (dict_merge old body) = fst ` set old \<union> fst ` set body"
    by (rule keys_dict_merge)
  have vals: "\<forall>key. map_of (dict_merge old body) key =
            (if key \<in> fst ` set body then map_of (rev body) key else map_of old key)"
    by (simp only: map_of_dict_merge_if) simp
  have last: "\<forall>f v. (f = ''description'' \<and> description item = None \<or> f = ''tax'' \<and> tax item = None)
              \<and> map_of old f = Some v \<and> v \<noteq> PyNone \<and> f \<notin> fst ` set body
            \<longrightarrow> map_of (dict_merge [(''id'', PyStr k)] (model_dump item)) f = Some PyNone
              \<and> map_of (dict_merge old body) f = Some v
              \<and> fst (update_item k item db) \<noteq> fst (patch_item k body db)"
    using differ by blast
  from upd rec stored_upd pat stored_pat keys vals last show ?thesis
    by (intro conjI)
qed


theorem replace_versus_partial_update_witness:
  "map_of [(''a'', [(''id'', PyStr ''a''), (''name'', PyStr ''Widget''), (''description'', PyStr ''old''),
             (''price'', PyFloat (Finite 10)), (''tax'', PyFloat (Finite 1)), (''colour'', PyStr ''red'')])] ''a'' =
     Some [(''id'', PyStr ''a''), (''name'', PyStr ''Widget''), (''description'', PyStr ''old''),
             (''price'', PyFloat (Finite 10)), (''tax'', PyFloat (Finite 1)), (''colour'', PyStr ''red'')]
   \<and> fst (update_item ''a'' \<lparr>name = ''Gadget'', description = None, price = Finite 20, tax = None\<rparr>
        [(''a'', [(''id'', PyStr ''a''), (''name'', PyStr ''Widget''), (''description'', PyStr ''old''),
             (''price'', PyFloat (Finite 10)), (''tax'', PyFloat (Finite 1)), (''colour'', PyStr ''red'')])]) =
       Inr (PyDict [(''id'', PyStr ''a''), (''name'', PyStr ''Gadget''), (''description'', PyNone),
             (''price'', PyFloat (Finite 20)), (''tax'', PyNone)])
   \<and> fst (patch_item ''a'' [(''name'', PyStr ''Gadget''), (''price'', PyFloat (Finite 20))]
        [(''a'', [(''id'', PyStr ''a''), (''name'', PyStr ''Widget''), (''description'', PyStr ''old''),
             (''price'', PyFloat (Finite 10)), (''tax'', PyFloat (Finite 1)), (''colour'', PyStr ''red'')])]) =
       Inr (PyDict [(''id'', PyStr ''a''), (''name'', PyStr ''Gadget''), (''description'', PyStr ''old''),
             (''price'', PyFloat (Finite 20)), (''tax'', PyFloat (Finite 1)), (''colour'', PyStr ''red'')])
   \<and> fst (update_item ''a'' \<lparr>name = ''Gadget'', description = None, price = Finite 20, tax = None\<rparr>
        [(''a'', [(''id'', PyStr ''a''), (''name'', PyStr ''Widget''), (''description'', PyStr ''old''),
             (''price'', PyFloat (Finite 10)), (''tax'', PyFloat (Finite 1)), (''colour'', PyStr ''red'')])])
     \<noteq> fst (patch_item ''a'' [(''name'', PyStr ''Gadget''), (''price'', PyFloat (Finite 20))]
        [(''a'', [(''id'', PyStr ''a''), (''name'', PyStr ''Widget''), (''description'', PyStr ''old''),
             (''price'', PyFloat (Finite 10)), (''tax'', PyFloat (Finite 1)), (''colour'', PyStr ''red'')])])"
proof -
  let ?old = "[(''id'', PyStr ''a''), (''name'', PyStr ''Widget''), (''description'', PyStr ''old''),
             (''price'', PyFloat (Finite 10)), (''tax'', PyFloat (Finite 1)), (''colour'', PyStr ''red'')]"
  let ?item = "\<lparr>name = ''Gadget'', description = None, price = Finite 20, tax = None\<rparr>"
  let ?body = "[(''name'', PyStr ''Gadget''), (''price'', PyFloat (Finite 20))]"
  have h: "map_of [(''a'', ?old)] ''a'' = Some ?old" by simp
  note t = replace_versus_partial_update [OF h, of ?item ?body]
  have d: "fst (update_item ''a'' ?item [(''a'', ?old)]) \<noteq> fst (patch_item ''a'' ?body [(''a'', ?old)])"
    using t by (simp add: model_dump_def setitem_def)
  have u: "fst (update_item ''a'' ?item [(''a'', ?old)]) =
       Inr (PyDict [(''id'', PyStr ''a''), (''name'', PyStr ''Gadget''), (''description'', PyNone),
             (''price'', PyFloat (Finite 20)), (''tax'', PyNone)])"
    using t by (simp add: model_dump_def setitem_def)
  have p: "fst (patch_item ''a'' ?body [(''a'', ?old)]) =
       Inr (PyDict [(''id'', PyStr ''a''), (''name'', PyStr ''Gadget''), (''description'', PyStr ''old''),
             (''price'', PyFloat (Finite 20)), (''tax'', PyFloat (Finite 1)), (''colour'', PyStr ''red'')])"
    using t by (simp add: setitem_def)
  from h u p d show ?thesis by (intro conjI)
qed

section \<open>The identifier invariant\<close>

text \<open>
  Create, Replace and Delete keep the invariant, the reading operations leave the
  registry as it is, and PartialUpdate keeps the invariant when its body has no key
  \<open>id\<close>.
\<close>

lemma str_uuid_nonempty: "str_uuid u \<noteq> []"
  using length_str_uuid [of u] by auto

lemma list_all_setitem:
  "list_all P db \<Longrightarrow> P (k, v) \<Longrightarrow> list_all P (setitem db k v)"
  by (induction db) (auto simp: setitem_def)

lemma list_all_delete: "list_all P db \<Longrightarrow> list_all P (AList.delete k db)"
  by (simp add: AList.delete_eq list_all_iff)

lemma id_invariant_lookup:
  "id_invariant db \<Longrightarrow> map_of db k = Some item \<Longrightarrow> k \<noteq> [] \<and> map_of item ''id'' = Some (PyStr k)"
  by (auto simp: id_invariant_def list_all_iff dest!: map_of_SomeD)

lemma id_invariant_create: "id_invariant db \<Longrightarrow> id_invariant (snd (create_item item rnd db))"
  unfolding id_invariant_def create_item_def Let_def snd_conv
  by (rule list_all_setitem) (simp_all add: new_record str_uuid_nonempty)

lemma id_invariant_update: "id_invariant db \<Longrightarrow> id_invariant (snd (update_item k item db))"
proof (cases "map_of db k")
  case None
  then show "id_invariant db \<Longrightarrow> ?thesis" by (simp add: update_item_def)
next
  case (Some old)
  assume inv: "id_invariant db"
  have "k \<noteq> []" using id_invariant_lookup [OF inv Some] by simp
  then have "list_all (\<lambda>(k, item). k \<noteq> [] \<and> map_of item ''id'' = Some (PyStr k))
      (setitem db k (dict_merge [(''id'', PyStr k)] (model_dump item)))"
    using inv unfolding id_invariant_def
    by (intro list_all_setitem) (simp_all add: new_record)
  then show ?thesis
    using Some by (simp add: update_item_def Let_def id_invariant_def)
qed

lemma id_invariant_delete: "id_invariant db \<Longrightarrow> id_invariant (snd (delete_item k db))"
  by (cases "map_of db k") (simp_all add: delete_item_def id_invariant_def list_all_delete)

lemma id_invariant_patch:
  assumes inv: "id_invariant db" and noid: "''id'' \<notin> fst ` set body"
  shows "id_invariant (snd (patch_item k body db))"
proof (cases "map_of db k")
  case None
  then show ?thesis using inv by (simp add: patch_item_def)
next
  case (Some old)
  have old: "k \<noteq> []" "map_of old ''id'' = Some (PyStr k)"
    using id_invariant_lookup [OF inv Some] by simp_all
  have "map_of (dict_merge old body) ''id'' = Some (PyStr k)"
    using noid old by (simp add: map_of_dict_merge_if)
  with old have "list_all (\<lambda>(k, item). k \<noteq> [] \<and> map_of item ''id'' = Some (PyStr k))
      (setitem db k (dict_merge old body))"
    using inv unfolding id_invariant_def
    by (intro list_all_setitem) simp_all
  then show ?thesis
    using Some by (simp add: patch_item_def Let_def id_invariant_def)
qed

lemma id_invariant_reads:
  "snd (read_items db) = db" "snd (read_item k db) = db" "snd (search_items n m db) = db"
  by (simp_all add: read_items_def read_item_def search_items_def split: option.splits sum.splits)

text \<open>
  C2: the invariant holds after Create, and PartialUpdate with a body that has the
  key \<open>id\<close> breaks it: the merge overwrites the \<open>id\<close> of the stored record while
  the record stays under its old key.
\<close>

theorem patch_overwrites_id:
  "id_invariant (snd (create_item \<lparr>name = ''Widget'', description = None, price = Finite 10, tax = None\<rparr> 0 []))
   \<and> patch_item ''00000000-0000-4000-8000-000000000000'' [(''id'', PyStr ''other'')]
       (snd (create_item \<lparr>name = ''Widget'', description = None, price = Finite 10, tax = None\<rparr> 0 [])) =
     (Inr (PyDict [(''id'', PyStr ''other''), (''name'', PyStr ''Widget''), (''description'', PyNone),
                   (''price'', PyFloat (Finite 10)), (''tax'', PyNone)]),
      [(''00000000-0000-4000-8000-000000000000'',
        [(''id'', PyStr ''other''), (''name'', PyStr ''Widget''), (''description'', PyNone),
         (''price'', PyFloat (Finite 10)), (''tax'', PyNone)])])
   \<and> \<not> id_invariant (snd (patch_item ''00000000-0000-4000-8000-000000000000'' [(''id'', PyStr ''other'')]
       (snd (create_item \<lparr>name = ''Widget'', description = None, price = Finite 10, tax = None\<rparr> 0 []))))"
  by code_simp

section \<open>The search route\<close>

text \<open>
  C1: the route \<open>/items/{item_id}\<close> is registered before \<open>/items/search\<close>, so a GET
  of \<open>/items/search\<close> is served by \<open>read_item\<close> with the identifier \<open>search\<close>,
  whatever the query and the registry, and fails with 404 as long as no item is
  stored under that key. Called directly, \<open>search_items\<close> raises AttributeError on
  the first stored item as soon as a filter is given.
\<close>

theorem search_route_shadowed:
  "serve_get [''items'', ''search''] name_q min_price db fs = json_of (fst (read_item ''search'' db))
   \<and> find_route routes GET [''items'', ''search''] = Some (Read_item, [''search''])
   \<and> serve_get [''items'', ''search''] (Some ''Widget'') None
       (snd (create_item \<lparr>name = ''Widget'', description = None, price = Finite 10, tax = None\<rparr> 0 [])) None
     = Inl (HTTPException 404 ''Item not found'')
   \<and> serve_get [''items'', ''search''] None None [] None
     = Inl (HTTPException 404 ''Item not found'')
   \<and> fst (search_items (Some ''Widget'') None
       (snd (create_item \<lparr>name = ''Widget'', description = None, price = Finite 10, tax = None\<rparr> 0 [])))
     = Inl AttributeError"
proof -
  have route: "find_route routes GET [''items'', ''search''] = Some (Read_item, [''search''])"
    by code_simp
  have served: "serve_get [''items'', ''search''] name_q min_price db fs =
      json_of (fst (read_item ''search'' db))"
    by (simp add: serve_get_def route)
  have one: "serve_get [''items'', ''search''] (Some ''Widget'') None
       (snd (create_item \<lparr>name = ''Widget'', description = None, price = Finite 10, tax = None\<rparr> 0 [])) None
     = Inl (HTTPException 404 ''Item not found'')"
    by code_simp
  have none: "serve_get [''items'', ''search''] None None [] None
     = Inl (HTTPException 404 ''Item not found'')"
    by code_simp
  have attr: "fst (search_items (Some ''Widget'') None
       (snd (create_item \<lparr>name = ''Widget'', description = None, price = Finite 10, tax = None\<rparr> 0 [])))
     = Inl AttributeError"
    by code_simp
  from served route one none attr show ?thesis by (intro conjI)
qed

section \<open>Stored names\<close>

lemma py_split_no_sep: "c \<notin> set s \<Longrightarrow> py_split c s = [s]"
  by (induction s) auto

lemma takeWhile_rev_snoc:
  "c \<in> set s \<Longrightarrow> takeWhile (\<lambda>y. y \<noteq> c) (rev s @ [x]) = takeWhile (\<lambda>y. y \<noteq> c) (rev s)"
  by (simp add: takeWhile_append1 takeWhile_append) (metis set_rev takeWhile_append1 takeWhile_eq_all_conv append_Nil2)

lemma py_split_sep:
  "c \<in> set s \<Longrightarrow>
     \<exists>w ws. py_split c s = w # ws \<and> ws \<noteq> [] \<and> last ws = rev (takeWhile (\<lambda>y. y \<noteq> c) (rev s))"
proof (induction s)
  case Nil
  then show ?case by simp
next
  case (Cons x xs)
  show ?case
  proof (cases "c \<in> set xs")
    case True
    then obtain w ws where IH: "py_split c xs = w # ws" "ws \<noteq> []"
        "last ws = rev (takeWhile (\<lambda>y. y \<noteq> c) (rev xs))"
      using Cons.IH by blast
    show ?thesis
      using IH True by (simp add: takeWhile_rev_snoc)
  next
    case False
    with Cons.prems have x: "x = c" by simp
    have all: "takeWhile (\<lambda>y. y \<noteq> c) (rev xs) = rev xs"
      using False by (auto simp: takeWhile_eq_all_conv)
    have "takeWhile (\<lambda>y. y \<noteq> c) (rev xs @ [c]) = rev xs"
      using False by (subst takeWhile_append2) auto
    with False x show ?thesis
      by (simp add: py_split_no_sep)
  qed
qed

lemma file_ext_is_spec_extension: "file_ext fname = spec_extension fname"
proof (cases "CHR ''.'' \<in> set fname")
  case True
  then obtain w ws where "py_split CHR ''.'' fname = w # ws" "ws \<noteq> []"
      "last ws = rev (takeWhile (\<lambda>y. y \<noteq> CHR ''.'') (rev fname))"
    using py_split_sep by blast
  with True show ?thesis by (simp add: file_ext_def spec_extension_def)
next
  case False
  then show ?thesis by (simp add: file_ext_def spec_extension_def)
qed

lemma set_file_ext: "set (file_ext fname) \<subseteq> set fname"
proof -
  have "set (rev (takeWhile (\<lambda>c. c \<noteq> CHR ''.'') (rev fname))) \<subseteq> set fname"
    using set_takeWhileD by fastforce
  then show ?thesis
    by (auto simp: file_ext_is_spec_extension spec_extension_def)
qed

lemma hex_digit_in: "hex_digit n \<in> set ''0123456789abcdef''"
  unfolding hex_digit_def by (rule nth_mem) simp

lemma set_hex32: "set (hex32 w) \<subseteq> set ''0123456789abcdef''"
proof
  fix c assume "c \<in> set (hex32 w)"
  then obtain n where "c = hex_digit n"
    unfolding hex32_def by (auto simp del: upt_Suc)
  then show "c \<in> set ''0123456789abcdef''"
    using hex_digit_in [of n] by (simp only:)
qed

lemma set_str_uuid: "set (str_uuid u) \<subseteq> insert CHR ''-'' (set (hex32 u))"
proof -
  have h: "set (hex32 u) \<subseteq> insert CHR ''-'' (set (hex32 u))"
    by (rule subset_insertI)
  have t: "set (take n (hex32 u)) \<subseteq> insert CHR ''-'' (set (hex32 u))" for n
    using set_take_subset [of n "hex32 u"] h by (rule subset_trans)
  have d: "set (drop n (hex32 u)) \<subseteq> insert CHR ''-'' (set (hex32 u))" for n
    using set_drop_subset [of n "hex32 u"] h by (rule subset_trans)
  have td: "set (take m (drop n (hex32 u))) \<subseteq> insert CHR ''-'' (set (hex32 u))" for m n
    using set_take_subset [of m "drop n (hex32 u)"] d [of n] by (rule subset_trans)
  have dash: "set ''-'' \<subseteq> insert CHR ''-'' (set (hex32 u))"
    by simp
  show ?thesis
    unfolding str_uuid_def Let_def set_append
    by (intro Un_least t td d dash)
qed

lemma str_uuid_no_slash: "CHR ''/'' \<notin> set (str_uuid u)"
proof
  assume "CHR ''/'' \<in> set (str_uuid u)"
  then have "CHR ''/'' \<in> set (hex32 u)"
    using set_str_uuid [of u] by auto
  then have "CHR ''/'' \<in> set ''0123456789abcdef''"
    using set_hex32 [of u] by (rule subsetD [rotated])
  then show False by simp
qed

lemma str_uuid_no_nul: "CHR 0x00 \<notin> set (str_uuid u)"
proof
  assume "CHR 0x00 \<in> set (str_uuid u)"
  then have "CHR 0x00 \<in> set (hex32 u)"
    using set_str_uuid [of u] by auto
  then have "CHR 0x00 \<in> set ''0123456789abcdef''"
    using set_hex32 [of u] by (rule subsetD [rotated])
  then show False by simp
qed

lemma str_uuid_not_report: "str_uuid u \<noteq> ''report''"
  using length_str_uuid [of u] by auto

lemma unique_filename_not_directory: "\<not> names_directory (unique_filename rnd fname)"
proof -
  have "length (unique_filename rnd fname) \<ge> 37"
    by (simp add: unique_filename_def length_str_uuid)
  then show ?thesis by (auto simp: names_directory_def)
qed

lemma length_unique_filename:
  "length (unique_filename rnd fname) = 36 + 1 + length (file_ext fname)"
  by (simp add: unique_filename_def length_str_uuid)

lemma slash_unique_filename:
  "CHR ''/'' \<in> set (unique_filename rnd fname) \<longleftrightarrow> CHR ''/'' \<in> set (file_ext fname)"
  using str_uuid_no_slash [of "uuid4 rnd"] by (simp add: unique_filename_def)

lemma nul_unique_filename:
  "CHR 0x00 \<in> set (unique_filename rnd fname) \<longleftrightarrow> CHR 0x00 \<in> set (file_ext fname)"
  using str_uuid_no_nul [of "uuid4 rnd"] by (simp add: unique_filename_def)

lemma open_write_Inr:
  "open_write fs n data = Inr fs' \<longleftrightarrow>
     (\<exists>d. fs = Some d \<and> fs' = Some (setitem d n data))
     \<and> CHR 0x00 \<notin> set n \<and> CHR ''/'' \<notin> set n \<and> \<not> names_directory n
     \<and> length n \<le> NAME_MAX \<and> length (''uploads/'' @ n) < PATH_MAX"
  by (cases fs) (auto simp: open_write_def Let_def)

lemma open_write_total:
  "(\<exists>e. open_write fs n data = Inl e) \<or> (\<exists>fs'. open_write fs n data = Inr fs')"
  by (cases "open_write fs n data") auto

lemma open_write_stored_ok:
  assumes "writable_ext fname"
  shows "open_write (Some d) (unique_filename rnd fname) data =
           Inr (Some (setitem d (unique_filename rnd fname) data))"
proof -
  have len: "length (unique_filename rnd fname) \<le> NAME_MAX"
    using assms by (simp add: writable_ext_def length_unique_filename)
  then have "length (''uploads/'' @ unique_filename rnd fname) < PATH_MAX"
    by (simp add: NAME_MAX_def PATH_MAX_def)
  with len assms show ?thesis
    by (simp add: open_write_Inr writable_ext_def slash_unique_filename nul_unique_filename
        unique_filename_not_directory)
qed

lemma open_write_stored_fails:
  assumes "\<not> writable_ext fname"
  shows "\<exists>e. open_write (Some d) (unique_filename rnd fname) data = Inl e"
proof -
  have "open_write (Some d) (unique_filename rnd fname) data \<noteq> Inr fs'" for fs'
    using assms
    by (auto simp: open_write_Inr writable_ext_def slash_unique_filename nul_unique_filename
        length_unique_filename)
  then show ?thesis
    using open_write_total [of "Some d" "unique_filename rnd fname" data] by blast
qed

lemma os_makedirs_Some: "os_makedirs fs = Some (case fs of None \<Rightarrow> [] | Some d \<Rightarrow> d)"
  by (simp add: os_makedirs_def split: option.splits)

lemma upload_file_ok:
  "writable_ext (filename file) \<Longrightarrow>
   upload_file file rnd fs =
     (Inr (PyDict [(''filename'', PyStr (unique_filename rnd (filename file))),
                   (''original_filename'', PyStr (filename file)),
                   (''message'', PyStr ''File uploaded successfully'')]),
      Some (setitem (case fs of None \<Rightarrow> [] | Some d \<Rightarrow> d)
              (unique_filename rnd (filename file)) (payload file)))"
  by (simp add: upload_file_def Let_def os_makedirs_Some open_write_stored_ok)

lemma upload_file_fails:
  assumes "\<not> writable_ext (filename file)"
  shows "\<exists>e. upload_file file rnd fs = (Inl e, os_makedirs fs)"
proof -
  obtain e where "open_write (Some (case fs of None \<Rightarrow> [] | Some d \<Rightarrow> d))
      (unique_filename rnd (filename file)) (payload file) = Inl e"
    using open_write_stored_fails [OF assms] by blast
  then show ?thesis
    by (simp add: upload_file_def Let_def os_makedirs_Some)
qed

lemma file_ext_report: "file_ext ''report.pdf'' = ''pdf''"
  by code_simp

lemma writable_report: "writable_ext ''report.pdf''"
  by (simp add: writable_ext_def file_ext_report NAME_MAX_def)

text \<open>
  C6: the extension the code takes (the last piece of \<open>split('.')\<close>, or nothing
  without a dot) is the text after the last dot, and the stored name is the
  36-character random token, a dot and that extension. When \<open>open\<close> can create
  the stored name (the extension has no \<open>/\<close> and no NUL character and the name is
  not too long), Save writes the payload under the stored name and answers with
  the stored name, the original name and the success message; otherwise it raises
  the exception of \<open>open\<close> and writes nothing. For \<open>report.pdf\<close> Save succeeds, the
  stored name is the token followed by \<open>.pdf\<close>, and the token is not \<open>report\<close>.
\<close>

theorem upload_file_stored_name:
  "file_ext fname = spec_extension fname
   \<and> unique_filename rnd fname = str_uuid (uuid4 rnd) @ ''.'' @ spec_extension fname
   \<and> length (str_uuid (uuid4 rnd)) = 36
   \<and> (writable_ext (filename file) \<longrightarrow>
        upload_file file rnd fs =
          (Inr (PyDict [(''filename'', PyStr (unique_filename rnd (filename file))),
                        (''original_filename'', PyStr (filename file)),
                        (''message'', PyStr ''File uploaded successfully'')]),
           Some (setitem (case fs of None \<Rightarrow> [] | Some d \<Rightarrow> d)
                   (unique_filename rnd (filename file)) (payload file))))
   \<and> (\<not> writable_ext (filename file) \<longrightarrow>
        (\<exists>e. upload_file file rnd fs = (Inl e, os_makedirs fs)))
   \<and> unique_filename rnd ''report.pdf'' = str_uuid (uuid4 rnd) @ ''.pdf''
   \<and> str_uuid (uuid4 rnd) \<noteq> ''report''
   \<and> fst (upload_file \<lparr>filename = ''report.pdf'', payload = data\<rparr> rnd fs) =
       Inr (PyDict [(''filename'', PyStr (str_uuid (uuid4 rnd) @ ''.pdf'')),
                    (''original_filename'', PyStr ''report.pdf''),
                    (''message'', PyStr ''File uploaded successfully'')])"
proof -
  have ext: "file_ext fname = spec_extension fname"
    by (rule file_ext_is_spec_extension)
  have uniq: "unique_filename rnd fname = str_uuid (uuid4 rnd) @ ''.'' @ spec_extension fname"
    by (simp add: unique_filename_def ext)
  have ok: "writable_ext (filename file) \<longrightarrow>
        upload_file file rnd fs =
          (Inr (PyDict [(''filename'', PyStr (unique_filename rnd (filename file))),
                        (''original_filename'', PyStr (filename file)),
                        (''message'', PyStr ''File uploaded successfully'')]),
           Some (setitem (case fs of None \<Rightarrow> [] | Some d \<Rightarrow> d)
                   (unique_filename rnd (filename file)) (payload file)))"
    using upload_file_ok by blast
  have bad: "\<not> writable_ext (filename file) \<longrightarrow>
        (\<exists>e. upload_file file rnd fs = (Inl e, os_makedirs fs))"
    using upload_file_fails by blast
  have pdf: "unique_filename rnd ''report.pdf'' = str_uuid (uuid4 rnd) @ ''.pdf''"
    by (simp add: unique_filename_def file_ext_report)
  have report: "fst (upload_file \<lparr>filename = ''report.pdf'', payload = data\<rparr> rnd fs) =
       Inr (PyDict [(''filename'', PyStr (str_uuid (uuid4 rnd) @ ''.pdf'')),
                    (''original_filename'', PyStr ''report.pdf''),
                    (''message'', PyStr ''File uploaded successfully'')])"
    using upload_file_ok [of "\<lparr>filename = ''report.pdf'', payload = data\<rparr>" rnd fs]
    by (simp add: writable_report pdf)
  from ext uniq length_str_uuid [of "uuid4 rnd"] ok bad pdf
    str_uuid_not_report [of "uuid4 rnd"] report
  show ?thesis by (intro conjI)
qed

theorem upload_file_stored_name_witness:
  "writable_ext (filename \<lparr>filename = ''report.pdf'', payload = [7, 8, 9]\<rparr>)
   \<and> upload_file \<lparr>filename = ''report.pdf'', payload = [7, 8, 9]\<rparr> 0 None =
       (Inr (PyDict [(''filename'', PyStr ''00000000-0000-4000-8000-000000000000.pdf''),
                     (''original_filename'', PyStr ''report.pdf''),
                     (''message'', PyStr ''File uploaded successfully'')]),
        Some [(''00000000-0000-4000-8000-000000000000.pdf'', [7, 8, 9])])
   \<and> \<not> writable_ext (filename \<lparr>filename = ''a.b/c'', payload = [7]\<rparr>)
   \<and> (\<exists>e. upload_file \<lparr>filename = ''a.b/c'', payload = [7]\<rparr> 0 None = (Inl e, Some []))
   \<and> upload_file \<lparr>filename = ''a.b/c'', payload = [7]\<rparr> 0 None = (Inl FileNotFoundError, Some [])
   \<and> upload_file \<lparr>filename = ''a.b/'', payload = [7]\<rparr> 0 None = (Inl IsADirectoryError, Some [])
   \<and> upload_file \<lparr>filename = ''a.'' @ replicate 300 CHR ''x'', payload = [7]\<rparr> 0 None =
       (Inl OSError, Some [])
   \<and> upload_file \<lparr>filename = [CHR ''a'', CHR ''.'', CHR 0x00], payload = [7]\<rparr> 0 None =
       (Inl ValueError, Some [])"
proof -
  let ?good = "\<lparr>filename = ''report.pdf'', payload = [7, 8, 9 :: 8 word]\<rparr>"
  let ?bad = "\<lparr>filename = ''a.b/c'', payload = [7 :: 8 word]\<rparr>"
  have w: "writable_ext (filename ?good)" by code_simp
  have nw: "\<not> writable_ext (filename ?bad)" by code_simp
  have st: "unique_filename 0 ''report.pdf'' = ''00000000-0000-4000-8000-000000000000.pdf''"
    by code_simp
  have a: "upload_file ?good 0 None =
       (Inr (PyDict [(''filename'', PyStr ''00000000-0000-4000-8000-000000000000.pdf''),
                     (''original_filename'', PyStr ''report.pdf''),
                     (''message'', PyStr ''File uploaded successfully'')]),
        Some [(''00000000-0000-4000-8000-000000000000.pdf'', [7, 8, 9])])"
    using upload_file_stored_name [of "''x''" 0 ?good None] w
    by (simp add: st setitem_def)
  have b: "\<exists>e. upload_file ?bad 0 None = (Inl e, Some [])"
    using upload_file_stored_name [of "''x''" 0 ?bad None] nw
    by (simp add: os_makedirs_def)
  have c: "upload_file ?bad 0 None = (Inl FileNotFoundError, Some [])"
    by code_simp
  have d: "upload_file \<lparr>filename = ''a.b/'', payload = [7 :: 8 word]\<rparr> 0 None =
      (Inl IsADirectoryError, Some [])"
    by code_simp
  have e: "upload_file \<lparr>filename = ''a.'' @ replicate 300 CHR ''x'', payload = [7 :: 8 word]\<rparr> 0 None =
       (Inl OSError, Some [])"
    by code_simp
  have f: "upload_file \<lparr>filename = [CHR ''a'', CHR ''.'', CHR 0x00], payload = [7 :: 8 word]\<rparr> 0 None =
       (Inl ValueError, Some [])"
    by code_simp
  from w a nw b c d e f show ?thesis by (intro conjI)
qed

section \<open>Listing\<close>

text \<open>
  C8: List always succeeds: with the names of the directory's files, and with the
  empty list when the directory does not exist.
\<close>

theorem list_files_spec:
  "list_files None = Inr (PyDict [(''files'', PyList [])])
   \<and> list_files (Some d) = Inr (PyDict [(''files'', PyList (map PyStr (map fst d)))])
   \<and> (\<exists>names. list_files fs = Inr (PyDict [(''files'', PyList (map PyStr names))])
          \<and> set names = (case fs of None \<Rightarrow> {} | Some d \<Rightarrow> fst ` set d))"
proof -
  have a: "list_files None = Inr (PyDict [(''files'', PyList [])])"
    by (simp add: list_files_def os_listdir_def)
  have b: "list_files (Some d) = Inr (PyDict [(''files'', PyList (map PyStr (map fst d)))])" for d
    by (simp add: list_files_def os_listdir_def)
  have c: "\<exists>names. list_files fs = Inr (PyDict [(''files'', PyList (map PyStr names))])
          \<and> set names = (case fs of None \<Rightarrow> {} | Some d \<Rightarrow> fst ` set d)"
  proof (cases fs)
    case None
    then show ?thesis using a by (intro exI [of _ "[]"]) simp
  next
    case (Some d)
    then show ?thesis using b [of d] by (intro exI [of _ "map fst d"]) simp
  qed
  from a b c show ?thesis by (intro conjI)
qed

section \<open>Saving several files\<close>

lemma save_each_ok:
  "list_all (\<lambda>f. writable_ext (filename f)) files \<Longrightarrow>
   save_each files rnd i acc (Some d) =
     (Inr (acc @ map (\<lambda>(j, f). PyDict [(''filename'', PyStr (unique_filename (rnd j) (filename f))),
                                        (''original_filename'', PyStr (filename f))])
                   (enumerate i files)),
      fold (\<lambda>(j, f) s. snd (upload_file f (rnd j) s)) (enumerate i files) (Some d))"
proof (induction files arbitrary: i acc d)
  case Nil
  then show ?case by simp
next
  case (Cons f files)
  then have w: "writable_ext (filename f)"
    and rest: "list_all (\<lambda>f. writable_ext (filename f)) files"
    by simp_all
  show ?case
    using Cons.IH [OF rest]
    by (simp add: Let_def open_write_stored_ok [OF w] upload_file_ok [OF w])
qed

lemma save_each_fails:
  "\<not> list_all (\<lambda>f. writable_ext (filename f)) files \<Longrightarrow>
   \<exists>e. fst (save_each files rnd i acc (Some d)) = Inl e"
proof (induction files arbitrary: i acc d)
  case Nil
  then show ?case by simp
next
  case (Cons f files)
  show ?case
  proof (cases "writable_ext (filename f)")
    case True
    with Cons.prems have "\<not> list_all (\<lambda>f. writable_ext (filename f)) files" by simp
    from Cons.IH [OF this] show ?thesis
      by (simp add: Let_def open_write_stored_ok [OF True])
  next
    case False
    obtain e where "open_write (Some d) (unique_filename (rnd i) (filename f)) (payload f) = Inl e"
      using open_write_stored_fails [OF False] by blast
    then show ?thesis
      by (simp add: Let_def)
  qed
qed

text \<open>
  C9: when \<open>open\<close> can create every stored name, SaveMultiple answers, under the
  key \<open>uploaded_files\<close>, with one \<open>{filename, original_filename}\<close> entry per input
  file in input order (the \<open>i\<close>-th entry is for the \<open>i\<close>-th file and the \<open>i\<close>-th
  random draw), and leaves the directory that Save, applied to the files from
  first to last, leaves. Otherwise it raises an exception and returns no result.
\<close>

theorem upload_multiple_files_spec:
  "(list_all (\<lambda>f. writable_ext (filename f)) files \<longrightarrow>
      upload_multiple_files files rnd fs =
        (Inr (PyDict [(''uploaded_files'',
                PyList (map (\<lambda>(i, f). PyDict [(''filename'', PyStr (unique_filename (rnd i) (filename f))),
                                               (''original_filename'', PyStr (filename f))])
                          (enumerate 0 files)))]),
         fold (\<lambda>(i, f) s. snd (upload_file f (rnd i) s)) (enumerate 0 files) (os_makedirs fs)))
   \<and> length (map (\<lambda>(i, f). PyDict [(''filename'', PyStr (unique_filename (rnd i) (filename f))),
                                    (''original_filename'', PyStr (filename f))])
               (enumerate 0 files)) = length files
   \<and> (\<not> list_all (\<lambda>f. writable_ext (filename f)) files \<longrightarrow>
        (\<exists>e. fst (upload_multiple_files files rnd fs) = Inl e))"
proof -
  have ok: "upload_multiple_files files rnd fs =
        (Inr (PyDict [(''uploaded_files'',
                PyList (map (\<lambda>(i, f). PyDict [(''filename'', PyStr (unique_filename (rnd i) (filename f))),
                                               (''original_filename'', PyStr (filename f))])
                          (enumerate 0 files)))]),
         fold (\<lambda>(i, f) s. snd (upload_file f (rnd i) s)) (enumerate 0 files) (os_makedirs fs))"
    if "list_all (\<lambda>f. writable_ext (filename f)) files"
    using save_each_ok [OF that, of rnd 0 "[]"]
    by (simp add: upload_multiple_files_def os_makedirs_Some)
  have bad: "\<exists>e. fst (upload_multiple_files files rnd fs) = Inl e"
    if "\<not> list_all (\<lambda>f. writable_ext (filename f)) files"
    using save_each_fails [OF that, of rnd 0 "[]" "case fs of None \<Rightarrow> [] | Some d \<Rightarrow> d"]
    by (cases "save_each files rnd 0 [] (Some (case fs of None \<Rightarrow> [] | Some d \<Rightarrow> d))")
      (auto simp: upload_multiple_files_def os_makedirs_Some)
  have len: "length (map (\<lambda>(i, f). PyDict [(''filename'', PyStr (unique_filename (rnd i) (filename f))),
                                    (''original_filename'', PyStr (filename f))])
               (enumerate 0 files)) = length files"
    by simp
  from ok bad len show ?thesis by blast
qed

theorem upload_multiple_files_spec_witness:
  "list_all (\<lambda>f. writable_ext (filename f))
     [\<lparr>filename = ''report.pdf'', payload = [1, 2, 3]\<rparr>, \<lparr>filename = ''notes'', payload = [4]\<rparr>]
   \<and> upload_multiple_files
       [\<lparr>filename = ''report.pdf'', payload = [1, 2, 3]\<rparr>, \<lparr>filename = ''notes'', payload = [4]\<rparr>]
       (\<lambda>i. of_nat i) None =
     (Inr (PyDict [(''uploaded_files'',
        PyList [PyDict [(''filename'', PyStr ''00000000-0000-4000-8000-000000000000.pdf''),
                        (''original_filename'', PyStr ''report.pdf'')],
                PyDict [(''filename'', PyStr ''00000000-0000-4000-8000-000000000001.''),
                        (''original_filename'', PyStr ''notes'')]])]),
      Some [(''00000000-0000-4000-8000-000000000000.pdf'', [1, 2, 3]),
            (''00000000-0000-4000-8000-000000000001.'', [4])])
   \<and> \<not> list_all (\<lambda>f. writable_ext (filename f))
         [\<lparr>filename = ''notes'', payload = [4]\<rparr>, \<lparr>filename = ''a.b/c'', payload = []\<rparr>]
   \<and> (\<exists>e. fst (upload_multiple_files
         [\<lparr>filename = ''notes'', payload = [4]\<rparr>, \<lparr>filename = ''a.b/c'', payload = []\<rparr>]
         (\<lambda>i. of_nat i) None) = Inl e)
   \<and> upload_multiple_files
         [\<lparr>filename = ''notes'', payload = [4]\<rparr>, \<lparr>filename = ''a.b/c'', payload = []\<rparr>]
         (\<lambda>i. of_nat i) None =
       (Inl FileNotFoundError, Some [(''00000000-0000-4000-8000-000000000000.'', [4])])"
proof -
  let ?files = "[\<lparr>filename = ''report.pdf'', payload = [1, 2, 3]\<rparr>, \<lparr>filename = ''notes'', payload = [4 :: 8 word]\<rparr>]"
  let ?bad = "[\<lparr>filename = ''notes'', payload = [4 :: 8 word]\<rparr>, \<lparr>filename = ''a.b/c'', payload = []\<rparr>]"
  have a: "list_all (\<lambda>f. writable_ext (filename f)) ?files"
    by code_simp
  have b: "\<not> list_all (\<lambda>f. writable_ext (filename f)) ?bad"
    by code_simp
  have e: "upload_multiple_files ?files (\<lambda>i. of_nat i) None =
        (Inr (PyDict [(''uploaded_files'',
                PyList (map (\<lambda>(i, f). PyDict [(''filename'', PyStr (unique_filename (of_nat i) (filename f))),
                                               (''original_filename'', PyStr (filename f))])
                          (enumerate 0 ?files)))]),
         fold (\<lambda>(i, f) s. snd (upload_file f (of_nat i) s)) (enumerate 0 ?files) (os_makedirs None))"
    using upload_multiple_files_spec [of ?files "\<lambda>i. of_nat i" None] a by blast
  have c: "upload_multiple_files ?files (\<lambda>i. of_nat i) None =
     (Inr (PyDict [(''uploaded_files'',
        PyList [PyDict [(''filename'', PyStr ''00000000-0000-4000-8000-000000000000.pdf''),
                        (''original_filename'', PyStr ''report.pdf'')],
                PyDict [(''filename'', PyStr ''00000000-0000-4000-8000-000000000001.''),
                        (''original_filename'', PyStr ''notes'')]])]),
      Some [(''00000000-0000-4000-8000-000000000000.pdf'', [1, 2, 3]),
            (''00000000-0000-4000-8000-000000000001.'', [4])])"
    unfolding e by code_simp
  have d: "\<exists>e. fst (upload_multiple_files ?bad (\<lambda>i. of_nat i) None) = Inl e"
    using upload_multiple_files_spec [of ?bad "\<lambda>i. of_nat i" None] b by blast
  have f: "upload_multiple_files ?bad (\<lambda>i. of_nat i) None =
       (Inl FileNotFoundError, Some [(''00000000-0000-4000-8000-000000000000.'', [4])])"
    by code_simp
  from a c b d f show ?thesis by (intro conjI)
qed

section \<open>Retrieve\<close>

text \<open>
  For a name of one path segment other than \<open>.\<close> and \<open>..\<close>, Retrieve is what the
  specification says: NotFound exactly when the directory has no file of that
  name, and otherwise a response for the path whose body is the bytes of the file.
  After a successful Save, Retrieve of the stored name serves exactly the payload.
\<close>

lemma download_file_ordinary_name:
  assumes "CHR ''/'' \<notin> set fname" and "\<not> names_directory fname"
  shows "(download_file fname fs = Inl file_not_found \<longleftrightarrow>
            (case fs of None \<Rightarrow> True | Some d \<Rightarrow> map_of d fname = None))
       \<and> (\<forall>d data. fs = Some d \<and> map_of d fname = Some data \<longrightarrow>
            download_file fname fs =
              Inr (FileResponse (''uploads/'' @ fname) ''application/octet-stream'' fname)
            \<and> file_response_body fs fname = Inr data)"
  using assms
  by (cases fs) (auto simp: download_file_def os_path_exists_def file_response_body_def)

lemma upload_then_download:
  assumes up: "upload_file file rnd fs = (Inr r, fs')"
  shows "download_file (unique_filename rnd (filename file)) fs' =
           Inr (FileResponse (''uploads/'' @ unique_filename rnd (filename file))
                  ''application/octet-stream'' (unique_filename rnd (filename file)))
       \<and> file_response_body fs' (unique_filename rnd (filename file)) = Inr (payload file)"
proof -
  have w: "writable_ext (filename file)"
  proof (rule ccontr)
    assume "\<not> writable_ext (filename file)"
    then obtain e where "upload_file file rnd fs = (Inl e, os_makedirs fs)"
      using upload_file_fails by blast
    with up show False by simp
  qed
  have fs': "fs' = Some (setitem (case fs of None \<Rightarrow> [] | Some d \<Rightarrow> d)
                    (unique_filename rnd (filename file)) (payload file))"
    using up upload_file_ok [OF w, of rnd fs] by simp
  show ?thesis
    by (simp add: fs' download_file_def os_path_exists_def file_response_body_def
        map_of_setitem unique_filename_not_directory)
qed

text \<open>
  C7: Retrieve is to fail with NotFound exactly when no file exists at the path.
  At the names \<open>.\<close> and \<open>..\<close> it does not: in an existing upload directory, here
  an empty one, no file is stored under any name, yet \<open>os.path.exists\<close> is true of
  \<open>uploads/.\<close> and \<open>uploads/..\<close>, so \<open>download_file\<close> raises no 404 and returns a
  FileResponse for a directory, which has no file bytes to serve: the request,
  routed to the handler by \<open>/download/{filename}\<close>, ends with RuntimeError.
\<close>

theorem download_file_directory_name:
  "os_listdir (Some []) = Inr []
   \<and> download_file ''.'' (Some []) \<noteq> Inl file_not_found
   \<and> download_file ''.'' (Some []) =
       Inr (FileResponse ''uploads/.'' ''application/octet-stream'' ''.'')
   \<and> file_response_body (Some []) ''.'' = Inl RuntimeError
   \<and> serve_get [''download'', ''.''] None None [] (Some []) =
       Inr (FileResponse ''uploads/.'' ''application/octet-stream'' ''.'')
   \<and> download_file ''..'' (Some []) =
       Inr (FileResponse ''uploads/..'' ''application/octet-stream'' ''..'')
   \<and> file_response_body (Some []) ''..'' = Inl RuntimeError
   \<and> download_file ''.'' None = Inl file_not_found"
  by code_simp

end
